theory Spec2Isabelle
  imports Main "HOL-Library.Word"
begin

section \<open>The output stream of a NiceAgent component (agent/outputstream.c)\<close>

text \<open>
  The development embeds \<^verbatim>\<open>agent/outputstream.c\<close>: the blocking write
  \<^verbatim>\<open>nice_output_stream_write\<close>, the non-blocking write, the readiness query and the
  handler of the agent's \<^verbatim>\<open>streams-removed\<close> signal. The agent itself
  (\<^verbatim>\<open>agent.c\<close>) and GLib are outside the file; what the file reads from them is
  data of the model, and what they do concurrently with a call is a script handed to it.
\<close>

subsection \<open>Errors and machine integers\<close>

text \<open>The \<^verbatim>\<open>GError\<close> codes of the \<^verbatim>\<open>G_IO_ERROR\<close> domain that the file sets or tests,
  and two codes the agent may report from a failed send.\<close>

datatype gerror =
    G_IO_ERROR_CLOSED
  | G_IO_ERROR_WOULD_BLOCK
  | G_IO_ERROR_CANCELLED
  | G_IO_ERROR_BROKEN_PIPE
  | G_IO_ERROR_FAILED

type_synonym guint = "32 word"

text \<open>\<^verbatim>\<open>gsize\<close> is an unsigned and \<^verbatim>\<open>gssize\<close> a signed 64-bit integer. Lengths are kept as
  \<open>nat\<close> and \<open>int\<close>, and the two casts of the write path are written out.\<close>

definition G_MAXSSIZE :: nat where
  "G_MAXSSIZE = 2 ^ 63 - 1"

definition gssize_of_gsize :: "nat \<Rightarrow> int" where
  "gssize_of_gsize c =
     (let u = int c mod 2 ^ 64 in if u < 2 ^ 63 then u else u - 2 ^ 64)"

definition gsize_of_gssize :: "int \<Rightarrow> nat" where
  "gsize_of_gssize l = nat (l mod 2 ^ 64)"

subsection \<open>The agent as the stream sees it\<close>

record pseudo_tcp_socket =
  can_send :: bool

record socket_source =
  poll_out :: bool

record component =
  tcp :: "pseudo_tcp_socket option"
  socket_sources :: "socket_source list"
  tcp_writable_cancellable :: bool

record nice_agent =
  reliable :: bool
  components :: "((guint \<times> guint) \<times> component) list"

text \<open>Modelled from the spec: \<^verbatim>\<open>agent_find_component\<close> is defined in \<^verbatim>\<open>agent.c\<close>, which is
  not among the sources. The spec gives it as
  \<^verbatim>\<open>find_component(stream_id, component_id) -> handle | NotFound\<close>.\<close>

definition agent_find_component :: "nice_agent \<Rightarrow> guint \<Rightarrow> guint \<Rightarrow> component option" where
  "agent_find_component agent sid cid = map_of (components agent) (sid, cid)"

subsection \<open>The stream object\<close>

text \<open>\<open>is_closed\<close> is the closed flag of the \<^verbatim>\<open>GOutputStream\<close> base object, read by
  \<^verbatim>\<open>g_output_stream_is_closed\<close>; \<open>agent_ref\<close> is the weak reference, \<open>None\<close> once the
  agent has been finalised.\<close>

record nice_output_stream =
  is_closed :: bool
  agent_ref :: "nice_agent option"
  stream_id :: guint
  component_id :: guint

text \<open>\<^verbatim>\<open>g_output_stream_close\<close> belongs to GLib. It is taken at its documented effect on
  a stream that has no other operation pending: the stream is marked closed (the class
  installs no \<^verbatim>\<open>close_fn\<close>).\<close>

definition g_output_stream_close :: "nice_output_stream \<Rightarrow> nice_output_stream" where
  "g_output_stream_close s = s\<lparr>is_closed := True\<rparr>"

subsection \<open>The readiness query\<close>

text \<open>The loop over \<^verbatim>\<open>component->socket_sources\<close>, leaving at the first socket whose
  \<^verbatim>\<open>g_socket_condition_check (fileno, G_IO_OUT)\<close> is non-zero.\<close>

fun any_socket_writable :: "socket_source list \<Rightarrow> bool" where
  "any_socket_writable [] = False"
| "any_socket_writable (x # xs) = (if poll_out x then True else any_socket_writable xs)"

definition tcp_can_send :: "component \<Rightarrow> bool" where
  "tcp_can_send c = (case tcp c of None \<Rightarrow> False | Some t \<Rightarrow> can_send t)"

definition nice_output_stream_is_writable :: "nice_output_stream \<Rightarrow> bool" where
  "nice_output_stream_is_writable s =
     (if is_closed s then False
      else case agent_ref s of
        None \<Rightarrow> False
      | Some agent \<Rightarrow>
          (case agent_find_component agent (stream_id s) (component_id s) of
             None \<Rightarrow> False
           | Some c \<Rightarrow>
               if reliable agent \<and> tcp_can_send c then True
               else any_socket_writable (socket_sources c)))"

subsection \<open>The streams-removed handler\<close>

text \<open>\<^verbatim>\<open>stream_ids\<close> is a pointer; the list is the memory it points to. The loop reads
  entry after entry until it meets a 0 or the stream's own id. Reading past the end of
  the memory is undefined in C and is \<open>None\<close> here.\<close>

fun streams_removed_cb :: "guint list \<Rightarrow> nice_output_stream \<Rightarrow> nice_output_stream option" where
  "streams_removed_cb [] s = None"
| "streams_removed_cb (x # xs) s =
     (if x = 0 then Some s
      else if x = stream_id s then Some (g_output_stream_close s)
      else streams_removed_cb xs s)"

subsection \<open>Actions on the outside world\<close>

text \<open>What a call does besides returning: the WriteData record it allocates, the
  handlers it connects and disconnects, the send attempts it passes to the agent (with
  the offset into the buffer and the length of the slice), and its waits on the
  condition variable.\<close>

datatype action =
    Alloc_write_data
  | Connect_cancelled
  | Connect_writable
  | Send int nat
  | Cond_wait
  | Disconnect_writable
  | Disconnect_cancelled
  | Unref_write_data
  | Free_write_data

text \<open>How a call ends: it returns a length and the error it stored for the caller, or
  one of its assertions fails, or it returns a length while the error it hands to the
  caller is a \<^verbatim>\<open>GError\<close> that has been freed already.\<close>

datatype outcome =
    Returned int "gerror option"
  | Assert_failed
  | Returned_freed_error int

subsection \<open>The non-blocking write\<close>

text \<open>\<open>reply\<close> is what \<^verbatim>\<open>nice_agent_send_messages_nonblocking\<close> answers if it is called: its
  return value (a \<^verbatim>\<open>gint\<close>) and the error it stores.\<close>

definition nice_output_stream_write_nonblocking ::
  "nice_output_stream \<Rightarrow> nat \<Rightarrow> int \<times> gerror option \<Rightarrow> (int \<times> gerror option) \<times> action list" where
  "nice_output_stream_write_nonblocking s count reply =
     (if is_closed s then ((- 1, Some G_IO_ERROR_CLOSED), [])
      else case agent_ref s of
        None \<Rightarrow> ((- 1, Some G_IO_ERROR_CLOSED), [])
      | Some agent \<Rightarrow>
          if count = 0 then ((0, None), [])
          else if \<not> nice_output_stream_is_writable s
            then ((- 1, Some G_IO_ERROR_WOULD_BLOCK), [])
          else
            let n_sent_messages = fst reply
            in ((if n_sent_messages = 1 then gssize_of_gsize count else n_sent_messages,
                 snd reply),
                [Send 0 count]))"

subsection \<open>The blocking write\<close>

text \<open>The fields of \<^verbatim>\<open>WriteData\<close> that the write path reads or counts. The mutex and the
  condition variable are locking and are not modelled. The record owns the \<^verbatim>\<open>GError\<close>
  in \<open>error\<close>.\<close>

record write_data =
  ref_count :: nat
  error :: "gerror option"
  writable :: bool

text \<open>\<^verbatim>\<open>write_data_unref\<close> drops one reference. The call that takes the count to 0 frees
  the record and, through \<^verbatim>\<open>g_clear_error\<close>, the error it owns; a record whose count is 0
  is a freed one.\<close>

definition write_data_unref :: "write_data \<Rightarrow> write_data" where
  "write_data_unref w = w\<lparr>ref_count := ref_count w - 1\<rparr>"

definition freed :: "write_data \<Rightarrow> bool" where
  "freed w = (ref_count w = 0)"

definition write_cancelled_cb :: "write_data \<Rightarrow> write_data" where
  "write_cancelled_cb w = w\<lparr>error := Some G_IO_ERROR_CANCELLED\<rparr>"

definition reliable_transport_writeable_cb :: "write_data \<Rightarrow> write_data" where
  "reliable_transport_writeable_cb w = w\<lparr>writable := True\<rparr>"

text \<open>The two notifications that can reach the record from other contexts. The
  cancellation handler is connected only when the caller passed a cancellable.\<close>

datatype signal = Writable_changed | Cancelled

fun deliver :: "bool \<Rightarrow> write_data \<Rightarrow> signal \<Rightarrow> write_data" where
  "deliver has_cancellable w Writable_changed = reliable_transport_writeable_cb w"
| "deliver has_cancellable w Cancelled =
     (if has_cancellable then write_cancelled_cb w else w)"

text \<open>One entry of the script per iteration of the loop: the agent's answer to the send
  (\<open>n_sent\<close> is the \<^verbatim>\<open>gint\<close> it returns, \<open>send_error\<close> the error it stores), the
  notifications delivered while the mutex is released around the send, and the
  notification that ends \<^verbatim>\<open>g_cond_wait\<close> if the iteration waits. A script that ends while
  the call is still in its loop leaves the call without a result.\<close>

record attempt =
  n_sent :: int
  send_error :: "gerror option"
  during :: "signal list"
  wake :: signal

record loop_state =
  len :: int
  child_error :: "gerror option"
  wdata :: write_data
  trace :: "action list"

text \<open>The agent's answer that the loop takes for "would block": the return value - 1
  together with a \<^verbatim>\<open>G_IO_ERROR_WOULD_BLOCK\<close> error.\<close>

definition would_block :: "attempt \<Rightarrow> bool" where
  "would_block a = (n_sent a = - 1 \<and> send_error a = Some G_IO_ERROR_WOULD_BLOCK)"

text \<open>The body of the \<^verbatim>\<open>do ... while\<close> loop. The first component of the result tells
  whether the body left the loop through \<^verbatim>\<open>break\<close>. \<open>child_error\<close> is \<^verbatim>\<open>NULL\<close> whenever a
  send is issued, so after the send it is what the agent stored.\<close>

definition write_iteration :: "nat \<Rightarrow> bool \<Rightarrow> attempt \<Rightarrow> loop_state \<Rightarrow> bool \<times> loop_state" where
  "write_iteration count has_cancellable a st =
     (let w1 = foldl (deliver has_cancellable) ((wdata st)\<lparr>writable := False\<rparr>) (during a);
          tr1 = trace st @ [Send (len st) (nat ((int count - len st) mod 2 ^ 64))]
      in if would_block a then
           (let parks = (\<not> writable w1 \<and> error w1 = None);
                w2 = (if parks then deliver has_cancellable w1 (wake a) else w1);
                tr2 = (if parks then tr1 @ [Cond_wait] else tr1)
            in (False, st\<lparr>child_error := None, wdata := w2, trace := tr2\<rparr>))
         else if n_sent a > 0 then
           (False, st\<lparr>len := gssize_of_gsize count, child_error := send_error a,
                      wdata := w1, trace := tr1\<rparr>)
         else
           (True, st\<lparr>len := n_sent a, child_error := send_error a,
                     wdata := w1, trace := tr1\<rparr>))"

text \<open>The loop: the body, then the test \<^verbatim>\<open>(gsize) len < count\<close> unless the body broke
  out.\<close>

fun write_loop :: "nat \<Rightarrow> bool \<Rightarrow> attempt list \<Rightarrow> loop_state \<Rightarrow> loop_state option" where
  "write_loop count has_cancellable [] st = None"
| "write_loop count has_cancellable (a # as) st =
     (case write_iteration count has_cancellable a st of
        (True, st') \<Rightarrow> Some st'
      | (False, st') \<Rightarrow>
          if gsize_of_gssize (len st') < count
          then write_loop count has_cancellable as st' else Some st')"

text \<open>The code after the loop. Disconnecting the writable handler releases that
  handler's reference to the record, and so does \<^verbatim>\<open>g_cancellable_disconnect\<close> for a
  handler that was really connected. A recorded cancellation is surfaced when nothing
  else went wrong and \<open>len\<close> is 0: \<^verbatim>\<open>g_propagate_error\<close> makes \<open>child_error\<close> point to the
  error the record owns, without taking it out of the record. Then the call releases its
  own reference, the two assertions are checked on the pointer and the length, and the
  error is handed to the caller. If that last release freed the record, a surfaced
  cancellation is a freed \<^verbatim>\<open>GError\<close> by the time it is handed over.\<close>

definition write_finish :: "bool option \<Rightarrow> loop_state \<Rightarrow> outcome \<times> action list" where
  "write_finish cancellable st =
     (let w1 = write_data_unref (wdata st);
          tr1 = trace st @ [Disconnect_writable];
          w2 = (if cancellable = Some False then write_data_unref w1 else w1);
          tr2 = (if cancellable \<noteq> None then tr1 @ [Disconnect_cancelled] else tr1);
          cancelled = (cancellable \<noteq> None \<and> error w2 \<noteq> None
                        \<and> child_error st = None \<and> len st = 0);
          len' = (if cancelled then - 1 else len st);
          w3 = write_data_unref w2;
          tr3 = tr2 @ [Unref_write_data] @ (if freed w3 then [Free_write_data] else []);
          child_error_set = (cancelled \<or> child_error st \<noteq> None)
      in if child_error_set \<noteq> (len' = - 1) then (Assert_failed, tr3)
         else if len' = 0 then (Assert_failed, tr3)
         else if cancelled then
           (if freed w3 then (Returned_freed_error len', tr3)
            else (Returned len' (error w2), tr3))
         else (Returned len' (child_error st), tr3))"

text \<open>\<open>cancellable\<close> is \<open>None\<close> for a \<^verbatim>\<open>NULL\<close> cancellable and \<open>Some c\<close> otherwise, where
  \<open>c\<close> tells whether it is already cancelled when the handler is connected:
  \<^verbatim>\<open>g_cancellable_connect\<close> then runs the handler and its destroy notification at once and
  connects nothing. The record starts with a reference count of 3. The result of a call
  is \<open>None\<close> when the script ends before the call returns.\<close>

definition write_start :: "bool option \<Rightarrow> loop_state" where
  "write_start cancellable =
     (let w0 = \<lparr>ref_count = 3, error = None, writable = False\<rparr>;
          w1 = (if cancellable = Some True then write_data_unref (write_cancelled_cb w0) else w0);
          tr = (if cancellable \<noteq> None then [Alloc_write_data, Connect_cancelled]
                else [Alloc_write_data])
      in \<lparr>len = 0, child_error = None, wdata = w1, trace = tr @ [Connect_writable]\<rparr>)"

definition nice_output_stream_write ::
  "nice_output_stream \<Rightarrow> nat \<Rightarrow> bool option \<Rightarrow> attempt list \<Rightarrow> (outcome \<times> action list) option" where
  "nice_output_stream_write s count cancellable script =
     (if is_closed s then Some (Returned (- 1) (Some G_IO_ERROR_CLOSED), [])
      else case agent_ref s of
        None \<Rightarrow> Some (Returned (- 1) (Some G_IO_ERROR_CLOSED), [])
      | Some agent \<Rightarrow>
          if count = 0 then Some (Returned 0 None, [])
          else map_option (write_finish cancellable)
                 (write_loop count (cancellable \<noteq> None) script (write_start cancellable)))"

subsection \<open>Reading a run\<close>

text \<open>The loop state after the bodies of the given iterations, one after the other.\<close>

definition run_iterations :: "nat \<Rightarrow> bool \<Rightarrow> attempt list \<Rightarrow> loop_state \<Rightarrow> loop_state" where
  "run_iterations count has_cancellable as st =
     foldl (\<lambda>st a. snd (write_iteration count has_cancellable a st)) st as"

text \<open>The send attempts among the actions of a call.\<close>

fun is_send :: "action \<Rightarrow> bool" where
  "is_send (Send off n) = True"
| "is_send _ = False"

definition sends :: "action list \<Rightarrow> action list" where
  "sends tr = filter is_send tr"

subsection \<open>Operations on a stream object\<close>

text \<open>The entry points of the file as steps on the stream object. The two writes, the
  readiness query and the construction of a source read the object and leave its fields
  as they are; an explicit close and the streams-removed handler go through
  \<^verbatim>\<open>g_output_stream_close\<close>; dispose clears the weak reference.\<close>

datatype operation =
    Op_write nat "bool option" "attempt list"
  | Op_write_nonblocking nat "int \<times> gerror option"
  | Op_is_writable
  | Op_create_source "bool option"
  | Op_close
  | Op_streams_removed "guint list"
  | Op_dispose

fun apply_operation :: "operation \<Rightarrow> nice_output_stream \<Rightarrow> nice_output_stream option" where
  "apply_operation (Op_write count cancellable script) s = Some s"
| "apply_operation (Op_write_nonblocking count reply) s = Some s"
| "apply_operation Op_is_writable s = Some s"
| "apply_operation (Op_create_source cancellable) s = Some s"
| "apply_operation Op_close s = Some (g_output_stream_close s)"
| "apply_operation (Op_streams_removed ids) s = streams_removed_cb ids s"
| "apply_operation Op_dispose s = Some (s\<lparr>agent_ref := None\<rparr>)"

fun run_operations :: "operation list \<Rightarrow> nice_output_stream \<Rightarrow> nice_output_stream option" where
  "run_operations [] s = Some s"
| "run_operations (op # ops) s =
     (case apply_operation op s of None \<Rightarrow> None | Some s' \<Rightarrow> run_operations ops s')"

subsection \<open>Sample objects\<close>

text \<open>A component with a pseudo-TCP socket that can send and no raw socket, an agent
  that holds it as component 1 of stream 1, and a stream object bound to that pair.\<close>

definition sample_component :: component where
  "sample_component =
     \<lparr>tcp = Some \<lparr>can_send = True\<rparr>, socket_sources = [], tcp_writable_cancellable = False\<rparr>"

definition sample_agent :: "bool \<Rightarrow> nice_agent" where
  "sample_agent r = \<lparr>reliable = r, components = [((1, 1), sample_component)]\<rparr>"

definition sample_stream :: "bool \<Rightarrow> nice_agent \<Rightarrow> nice_output_stream" where
  "sample_stream cl agent =
     \<lparr>is_closed = cl, agent_ref = Some agent, stream_id = 1, component_id = 1\<rparr>"

text \<open>Script entries: the agent reports \<open>n\<close> messages sent, answers "would block" (the
  wait, if there is one, is ended by the given notification), or fails with an error.\<close>

definition accepts :: "int \<Rightarrow> attempt" where
  "accepts n = \<lparr>n_sent = n, send_error = None, during = [], wake = Writable_changed\<rparr>"

definition blocks :: "signal \<Rightarrow> attempt" where
  "blocks sg =
     \<lparr>n_sent = - 1, send_error = Some G_IO_ERROR_WOULD_BLOCK, during = [], wake = sg\<rparr>"

definition fails :: "gerror \<Rightarrow> attempt" where
  "fails e = \<lparr>n_sent = - 1, send_error = Some e, during = [], wake = Writable_changed\<rparr>"

section \<open>Properties\<close>

subsection \<open>Closed streams and empty writes\<close>

text \<open>Claim C5. On a stream whose closed flag is set, the blocking write and the
  non-blocking write fail with \<^verbatim>\<open>G_IO_ERROR_CLOSED\<close> for every length (0 included), every
  cancellable and whatever the agent would answer, without any action on the outside,
  and the readiness query answers false, whatever the state of the agent.\<close>

theorem closed_contract:
  "is_closed s \<Longrightarrow>
     nice_output_stream_write s count cancellable script
       = Some (Returned (- 1) (Some G_IO_ERROR_CLOSED), [])
   \<and> nice_output_stream_write_nonblocking s count reply
       = ((- 1, Some G_IO_ERROR_CLOSED), [])
   \<and> \<not> nice_output_stream_is_writable s"
  by (simp add: nice_output_stream_write_def nice_output_stream_write_nonblocking_def
      nice_output_stream_is_writable_def)

theorem closed_contract_witness:
  "is_closed (sample_stream True (sample_agent True))
   \<and> nice_output_stream_write (sample_stream True (sample_agent True)) 0 None [accepts 1]
       = Some (Returned (- 1) (Some G_IO_ERROR_CLOSED), [])
   \<and> nice_output_stream_write_nonblocking (sample_stream True (sample_agent True)) 0 (1, None)
       = ((- 1, Some G_IO_ERROR_CLOSED), [])
   \<and> \<not> nice_output_stream_is_writable (sample_stream True (sample_agent True))"
  using closed_contract [where s = "sample_stream True (sample_agent True)" and count = 0
      and cancellable = None and script = "[accepts 1]" and reply = "(1, None)"]
  by (simp add: sample_stream_def)

text \<open>Claim C9. A blocking write of length 0 on an open stream whose agent is alive
  returns 0 at once: its list of actions is empty, so no WriteData record is allocated,
  no handler is connected and no send is passed to the agent.\<close>

theorem zero_length_write:
  "\<not> is_closed s \<Longrightarrow> agent_ref s = Some agent \<Longrightarrow>
   nice_output_stream_write s 0 cancellable script = Some (Returned 0 None, [])"
  by (simp add: nice_output_stream_write_def)

theorem zero_length_write_witness:
  "\<not> is_closed (sample_stream False (sample_agent True))
   \<and> agent_ref (sample_stream False (sample_agent True)) = Some (sample_agent True)
   \<and> nice_output_stream_write (sample_stream False (sample_agent True)) 0 (Some False)
        [accepts 1] = Some (Returned 0 None, [])"
  using zero_length_write [where s = "sample_stream False (sample_agent True)"
      and agent = "sample_agent True" and cancellable = "Some False" and script = "[accepts 1]"]
  by (simp add: sample_stream_def)

subsection \<open>The streams-removed handler and the closed flag\<close>

lemma streams_removed_cb_found:
  "stream_id s \<in> set (takeWhile (\<lambda>x. x \<noteq> 0) ids) \<Longrightarrow>
   streams_removed_cb ids s = Some (g_output_stream_close s)"
  by (induction ids) (auto split: if_splits)

lemma streams_removed_cb_closed:
  "streams_removed_cb ids s = Some s' \<Longrightarrow> is_closed s \<Longrightarrow> is_closed s'"
  by (induction ids) (auto simp: g_output_stream_close_def split: if_splits)

lemma apply_operation_closed:
  "apply_operation op s = Some s' \<Longrightarrow> is_closed s \<Longrightarrow> is_closed s'"
  by (cases op) (auto simp: g_output_stream_close_def dest: streams_removed_cb_closed)

lemma run_operations_closed:
  "run_operations ops s = Some s' \<Longrightarrow> is_closed s \<Longrightarrow> is_closed s'"
proof (induction ops arbitrary: s)
  case Nil
  then show ?case by simp
next
  case (Cons op ops)
  then show ?case
    by (auto split: option.splits dest: apply_operation_closed)
qed

text \<open>Claim C8. When the streams-removed handler is given an array whose identifiers
  (the entries before the terminating 0) include the stream's id, it returns with the
  stream closed. The closed flag is monotonic: from a closed stream, every sequence of
  operations of the file that runs to its end leaves the stream closed.\<close>

theorem removed_stream_closes:
  "(stream_id s \<in> set (takeWhile (\<lambda>x. x \<noteq> 0) ids) \<longrightarrow>
      (\<exists>s'. streams_removed_cb ids s = Some s' \<and> is_closed s'))
   \<and> (is_closed s \<and> run_operations ops s = Some s' \<longrightarrow> is_closed s')"
  using streams_removed_cb_found [of s ids] run_operations_closed [of ops s s']
  by (auto simp: g_output_stream_close_def)

theorem removed_stream_closes_witness:
  "stream_id (sample_stream False (sample_agent True)) \<in> set (takeWhile (\<lambda>x. x \<noteq> 0) [3, 1, 0])
   \<and> (\<exists>s'. streams_removed_cb [3, 1, 0] (sample_stream False (sample_agent True)) = Some s'
          \<and> is_closed s')
   \<and> is_closed (sample_stream True (sample_agent True))
   \<and> run_operations [Op_streams_removed [2, 0], Op_write 5 None [accepts 1], Op_dispose, Op_close]
        (sample_stream True (sample_agent True))
       = Some \<lparr>is_closed = True, agent_ref = None, stream_id = 1, component_id = 1\<rparr>
   \<and> is_closed \<lparr>is_closed = True, agent_ref = None, stream_id = 1, component_id = 1\<rparr>"
  using removed_stream_closes [where s = "sample_stream False (sample_agent True)"
      and ids = "[3, 1, 0]" and ops = "[]"
      and s' = "sample_stream False (sample_agent True)"]
    removed_stream_closes [where s = "sample_stream True (sample_agent True)"
      and ids = "[0]"
      and ops = "[Op_streams_removed [2, 0], Op_write 5 None [accepts 1], Op_dispose, Op_close]"
      and s' = "\<lparr>is_closed = True, agent_ref = None, stream_id = 1, component_id = 1\<rparr>"]
  by (simp add: sample_stream_def g_output_stream_close_def)

text \<open>Claim C10. The handler treats the array as zero-terminated. With \<open>pre\<close> the entries
  strictly before the first 0, the handler returns the stream closed if and only if the
  stream was closed already or its id is among \<open>pre\<close>. The entries \<open>rest\<close> after the 0 do
  not enter the result, and since \<open>pre\<close> holds no 0, a stream id of 0 never matches.\<close>

theorem streams_removed_zero_terminated:
  "0 \<notin> set pre \<Longrightarrow>
   streams_removed_cb (pre @ 0 # rest) s
     = Some (s\<lparr>is_closed := is_closed s \<or> stream_id s \<in> set pre\<rparr>)"
  by (induction pre) (auto simp: g_output_stream_close_def)

theorem streams_removed_zero_terminated_witness:
  "0 \<notin> set [3, 1 :: guint]
   \<and> streams_removed_cb ([3, 1] @ 0 # [2]) (sample_stream False (sample_agent True))
       = Some (sample_stream True (sample_agent True))
   \<and> streams_removed_cb ([3, 1] @ 0 # [2])
        \<lparr>is_closed = False, agent_ref = None, stream_id = 2, component_id = 1\<rparr>
       = Some \<lparr>is_closed = False, agent_ref = None, stream_id = 2, component_id = 1\<rparr>
   \<and> streams_removed_cb ([3, 1] @ 0 # [2])
        \<lparr>is_closed = False, agent_ref = None, stream_id = 0, component_id = 1\<rparr>
       = Some \<lparr>is_closed = False, agent_ref = None, stream_id = 0, component_id = 1\<rparr>"
  using streams_removed_zero_terminated [where pre = "[3, 1]" and rest = "[2]"
      and s = "sample_stream False (sample_agent True)"]
    streams_removed_zero_terminated [where pre = "[3, 1]" and rest = "[2]"
      and s = "\<lparr>is_closed = False, agent_ref = None, stream_id = 2, component_id = 1\<rparr>"]
    streams_removed_zero_terminated [where pre = "[3, 1]" and rest = "[2]"
      and s = "\<lparr>is_closed = False, agent_ref = None, stream_id = 0, component_id = 1\<rparr>"]
  by (simp add: sample_stream_def)

subsection \<open>The readiness query and the non-blocking write\<close>





text \<open>Claim C6, as stated, at a writable stream, a 5-byte buffer and the agent's answer
  "one message sent": the call returns 5, not the 1 the send returned.\<close>

theorem write_nonblocking_counterexample:
  "nice_output_stream_is_writable (sample_stream False (sample_agent True))
   \<and> fst (nice_output_stream_write_nonblocking (sample_stream False (sample_agent True)) 5
        (1, None)) = (5, None)
   \<and> fst (nice_output_stream_write_nonblocking (sample_stream False (sample_agent True)) 5
        (1, None)) \<noteq> (1, None)"
  by (simp add: nice_output_stream_write_nonblocking_def nice_output_stream_is_writable_def
      agent_find_component_def sample_agent_def sample_stream_def sample_component_def
      tcp_can_send_def gssize_of_gsize_def Let_def)

text \<open>Claim C6, amended. A non-blocking write of length \<open>count > 0\<close> on an open stream
  whose agent is alive: if the readiness query is false it fails with
  \<^verbatim>\<open>G_IO_ERROR_WOULD_BLOCK\<close> and makes no send attempt; if it is true it makes exactly one
  send attempt with the whole buffer, returns \<open>count\<close> when the send reports one message
  sent and the send's own return value otherwise, and passes the send's error on
  unchanged.\<close>

theorem write_nonblocking_result:
  "\<not> is_closed s \<Longrightarrow> agent_ref s = Some agent \<Longrightarrow> 0 < count \<Longrightarrow> count \<le> G_MAXSSIZE \<Longrightarrow>
   nice_output_stream_write_nonblocking s count (n, e) =
     (if nice_output_stream_is_writable s
      then ((if n = 1 then int count else n, e), [Send 0 count])
      else ((- 1, Some G_IO_ERROR_WOULD_BLOCK), []))"
  by (auto simp: nice_output_stream_write_nonblocking_def gssize_of_gsize_def G_MAXSSIZE_def Let_def)

theorem write_nonblocking_result_witness:
  "\<not> is_closed (sample_stream False (sample_agent True))
   \<and> agent_ref (sample_stream False (sample_agent True)) = Some (sample_agent True)
   \<and> (0 :: nat) < 5 \<and> 5 \<le> G_MAXSSIZE
   \<and> nice_output_stream_write_nonblocking (sample_stream False (sample_agent True)) 5
        (- 1, Some G_IO_ERROR_FAILED) = ((- 1, Some G_IO_ERROR_FAILED), [Send 0 5])
   \<and> nice_output_stream_write_nonblocking (sample_stream False (sample_agent False)) 5
        (1, None) = ((- 1, Some G_IO_ERROR_WOULD_BLOCK), [])"
  using write_nonblocking_result [where s = "sample_stream False (sample_agent True)"
      and agent = "sample_agent True" and count = 5 and n = "- 1" and e = "Some G_IO_ERROR_FAILED"]
    write_nonblocking_result [where s = "sample_stream False (sample_agent False)"
      and agent = "sample_agent False" and count = 5 and n = 1 and e = None]
  by (simp add: nice_output_stream_is_writable_def agent_find_component_def sample_agent_def
      sample_stream_def sample_component_def tcp_can_send_def G_MAXSSIZE_def)

subsection \<open>The blocking write loop\<close>

lemma gssize_of_gsize_id: "count \<le> G_MAXSSIZE \<Longrightarrow> gssize_of_gsize count = int count"
  by (simp add: gssize_of_gsize_def G_MAXSSIZE_def Let_def)

lemma gsize_of_gssize_id: "count \<le> G_MAXSSIZE \<Longrightarrow> gsize_of_gssize (int count) = count"
  by (simp add: gsize_of_gssize_def G_MAXSSIZE_def)

lemma gsize_of_gssize_0: "gsize_of_gssize 0 = 0"
  by (simp add: gsize_of_gssize_def)

lemma slice_at_0: "count \<le> G_MAXSSIZE \<Longrightarrow> nat (int count mod 18446744073709551616) = count"
  by (simp add: G_MAXSSIZE_def)

lemma iteration_would_block:
  assumes "would_block a"
  shows "fst (write_iteration count hc a st) = False"
    and "len (snd (write_iteration count hc a st)) = len st"
    and "child_error (snd (write_iteration count hc a st)) = None"
  using assms by (simp_all add: write_iteration_def Let_def)

lemma iteration_other:
  assumes "\<not> would_block a"
  shows "len (snd (write_iteration count hc a st)) = (if 0 < n_sent a then gssize_of_gsize count else n_sent a)"
    and "child_error (snd (write_iteration count hc a st)) = send_error a"
    and "fst (write_iteration count hc a st) = (\<not> 0 < n_sent a)"
  using assms by (simp_all add: write_iteration_def Let_def)

lemma iteration_sends:
  "sends (trace (snd (write_iteration count hc a st))) =
     sends (trace st) @ [Send (len st) (nat ((int count - len st) mod 2 ^ 64))]"
  by (simp add: write_iteration_def Let_def sends_def)

lemma run_iterations_Cons:
  "run_iterations count hc (a # as) st = run_iterations count hc as (snd (write_iteration count hc a st))"
  by (simp add: run_iterations_def)

lemma run_iterations_snoc:
  "run_iterations count hc (as @ [a]) st = snd (write_iteration count hc a (run_iterations count hc as st))"
  by (simp add: run_iterations_def)

lemma run_would_blocks:
  assumes "\<forall>a\<in>set wbs. would_block a"
  shows "len (run_iterations count hc wbs st) = len st"
    and "wbs \<noteq> [] \<Longrightarrow> child_error (run_iterations count hc wbs st) = None"
    and "sends (trace (run_iterations count hc wbs st)) =
           sends (trace st) @ replicate (length wbs) (Send (len st) (nat ((int count - len st) mod 2 ^ 64)))"
  using assms
proof (induction wbs rule: rev_induct)
  case Nil
  { case 1 show ?case by (simp add: run_iterations_def) }
  { case 2 then show ?case by simp }
  { case 3 show ?case by (simp add: run_iterations_def) }
next
  case (snoc a wbs)
  { case 1 with snoc show ?case by (simp add: run_iterations_snoc iteration_would_block) }
  { case 2 with snoc show ?case by (simp add: run_iterations_snoc iteration_would_block) }
  { case 3 with snoc show ?case
      by (simp add: run_iterations_snoc iteration_sends replicate_append_same) }
qed

lemma loop_skip:
  "\<forall>a\<in>set wbs. would_block a \<Longrightarrow> gsize_of_gssize (len st) < count \<Longrightarrow>
   write_loop count hc (wbs @ rest) st = write_loop count hc rest (run_iterations count hc wbs st)"
proof (induction wbs arbitrary: st)
  case Nil
  then show ?case by (simp add: run_iterations_def)
next
  case (Cons a wbs)
  have wb: "would_block a" using Cons.prems by simp
  obtain b st' where it: "write_iteration count hc a st = (b, st')" by (cases "write_iteration count hc a st")
  from iteration_would_block [OF wb, of count hc st] it
  have b: "b = False" and l: "len st' = len st" by simp_all
  show ?case using Cons.IH [of st'] Cons.prems it b l
    by (simp add: run_iterations_Cons)
qed

lemma loop_all_would_block:
  "\<forall>a\<in>set wbs. would_block a \<Longrightarrow> gsize_of_gssize (len st) < count \<Longrightarrow>
   write_loop count hc wbs st = None"
  using loop_skip [of wbs st count hc "[]"] by simp

lemma loop_last:
  assumes "\<not> would_block r" "count \<le> G_MAXSSIZE"
  shows "write_loop count hc (r # rest) st = Some (snd (write_iteration count hc r st))"
proof -
  obtain b st' where it: "write_iteration count hc r st = (b, st')" by (cases "write_iteration count hc r st")
  from iteration_other [OF assms(1), of count hc st] it
  have "b = (\<not> 0 < n_sent r)" and "len st' = (if 0 < n_sent r then gssize_of_gsize count else n_sent r)"
    by simp_all
  then show ?thesis using it assms(2)
    by (auto simp: gssize_of_gsize_id gsize_of_gssize_id)
qed

lemma loop_exit:
  assumes "\<forall>a\<in>set wbs. would_block a" "\<not> would_block r" "0 < count" "count \<le> G_MAXSSIZE" "len st = 0"
  shows "write_loop count hc (wbs @ r # rest) st = Some (run_iterations count hc (wbs @ [r]) st)"
  using loop_skip [of wbs st count hc "r # rest"] assms loop_last [of r count hc rest]
  by (simp add: gsize_of_gssize_0 run_iterations_snoc)

lemma exit_state:
  assumes "\<forall>a\<in>set wbs. would_block a" "\<not> would_block r" "count \<le> G_MAXSSIZE" "len st = 0"
  shows "len (run_iterations count hc (wbs @ [r]) st) = (if 0 < n_sent r then int count else n_sent r)"
    and "child_error (run_iterations count hc (wbs @ [r]) st) = send_error r"
    and "sends (trace (run_iterations count hc (wbs @ [r]) st)) =
           sends (trace st) @ replicate (Suc (length wbs)) (Send 0 count)"
  using assms run_would_blocks [OF assms(1), of count hc st]
  by (simp_all add: run_iterations_snoc iteration_other iteration_sends gssize_of_gsize_id
      slice_at_0 replicate_append_same)


lemma start_state:
  "len (write_start c) = 0" "child_error (write_start c) = None" "sends (trace (write_start c)) = []"
  by (simp_all add: write_start_def Let_def sends_def write_cancelled_cb_def write_data_unref_def)

lemma finish_sends: "sends (snd (write_finish c st)) = sends (trace st)"
  by (simp add: write_finish_def Let_def sends_def)

lemma finish_success:
  "len st = int count \<Longrightarrow> 0 < count \<Longrightarrow> child_error st = None \<Longrightarrow>
   fst (write_finish c st) = Returned (int count) None"
  by (simp add: write_finish_def Let_def)

lemma finish_failure:
  "len st = - 1 \<Longrightarrow> child_error st = Some e \<Longrightarrow> fst (write_finish c st) = Returned (- 1) (Some e)"
  by (simp add: write_finish_def Let_def)

lemma deliver_ref_count: "ref_count (deliver hc w sg) = ref_count w"
  by (cases sg) (simp_all add: write_cancelled_cb_def reliable_transport_writeable_cb_def)

lemma foldl_deliver_ref_count: "ref_count (foldl (deliver hc) w sgs) = ref_count w"
  by (induction sgs arbitrary: w) (simp_all add: deliver_ref_count)

lemma iteration_ref_count:
  "ref_count (wdata (snd (write_iteration count hc a st))) = ref_count (wdata st)"
  by (simp add: write_iteration_def Let_def deliver_ref_count foldl_deliver_ref_count)

lemma run_iterations_ref_count:
  "ref_count (wdata (run_iterations count hc as st)) = ref_count (wdata st)"
  by (induction as rule: rev_induct) (simp_all add: run_iterations_def iteration_ref_count)

lemma start_ref_count: "ref_count (wdata (write_start c)) = (if c = Some True then 2 else 3)"
  by (simp add: write_start_def Let_def write_cancelled_cb_def write_data_unref_def)

lemma finish_reports_error:
  "ref_count (wdata st) = (if c = Some True then 2 else 3) \<Longrightarrow>
   fst (write_finish c st) = Returned (- 1) (Some e) \<Longrightarrow>
   len st = - 1 \<and> child_error st = Some e"
  by (auto simp: write_finish_def Let_def write_data_unref_def freed_def split: if_splits)

lemma write_open:
  "\<not> is_closed s \<Longrightarrow> agent_ref s = Some agent \<Longrightarrow> 0 < count \<Longrightarrow>
   nice_output_stream_write s count c script =
     map_option (write_finish c) (write_loop count (c \<noteq> None) script (write_start c))"
  by (simp add: nice_output_stream_write_def)

lemma write_exit:
  assumes "\<not> is_closed s" "agent_ref s = Some agent" "0 < count" "count \<le> G_MAXSSIZE"
    and "\<forall>a\<in>set wbs. would_block a" "\<not> would_block r"
  shows "nice_output_stream_write s count c (wbs @ r # rest) =
           Some (write_finish c (run_iterations count (c \<noteq> None) (wbs @ [r]) (write_start c)))"
  using assms by (simp add: write_open loop_exit start_state)

text \<open>Claim C2, as stated, in its own scenario: a 5-byte buffer, and an agent that
  answers 3 to the first send and would answer 2 to a second. The first iteration starts
  at offset 0 and leaves the offset at 5, not at 3, and the call makes one send attempt,
  not two.\<close>

theorem partial_accept_counterexample:
  "len (write_start None) = 0
   \<and> len (snd (write_iteration 5 False (accepts 3) (write_start None))) = 5
   \<and> len (snd (write_iteration 5 False (accepts 3) (write_start None)))
       \<noteq> len (write_start None) + 3
   \<and> map_option (sends \<circ> snd)
        (nice_output_stream_write (sample_stream False (sample_agent True)) 5 None
           [accepts 3, accepts 2]) = Some [Send 0 5]"
  by (simp add: nice_output_stream_write_def write_iteration_def write_start_def write_finish_def
      sample_stream_def accepts_def would_block_def gssize_of_gsize_def gsize_of_gssize_def
      sends_def Let_def)

text \<open>Claim C2, amended. In a blocking write, a send attempt for which the agent
  returns a positive value sets the sent offset to the whole \<open>count\<close>, whatever the
  value, and the loop ends there: after any number of "would block" answers the call
  returns \<open>count\<close> without an error, every attempt having been given the whole buffer
  from offset 0, and whatever the agent would have answered next is never asked for.\<close>

theorem success_ends_call:
  assumes "\<not> is_closed s" "agent_ref s = Some agent" "0 < count" "count \<le> G_MAXSSIZE"
    and "\<forall>a\<in>set wbs. would_block a" "0 < n_sent r" "send_error r = None"
  shows "len (snd (write_iteration count hc r st)) = int count
       \<and> map_option fst (nice_output_stream_write s count c (wbs @ r # rest))
           = Some (Returned (int count) None)
       \<and> map_option (sends \<circ> snd) (nice_output_stream_write s count c (wbs @ r # rest))
           = Some (replicate (Suc (length wbs)) (Send 0 count))"
proof -
  have nwb: "\<not> would_block r" using assms(6) by (simp add: would_block_def)
  let ?st = "run_iterations count (c \<noteq> None) (wbs @ [r]) (write_start c)"
  have st: "len ?st = int count" "child_error ?st = None"
       "sends (trace ?st) = replicate (Suc (length wbs)) (Send 0 count)"
    using exit_state [OF assms(5) nwb assms(4), of "write_start c" "c \<noteq> None"] assms(6,7)
    by (simp_all add: start_state)
  have "len (snd (write_iteration count hc r st)) = int count"
    using iteration_other(1) [OF nwb, of count hc st] assms(4,6) by (simp add: gssize_of_gsize_id)
  then show ?thesis
    using write_exit [OF assms(1-5) nwb, of c rest] st finish_success [OF st(1) assms(3) st(2)]
    by (simp add: finish_sends)
qed

theorem success_ends_call_witness:
  "\<not> is_closed (sample_stream False (sample_agent True))
   \<and> (0 :: nat) < 5 \<and> 5 \<le> G_MAXSSIZE
   \<and> would_block (blocks Writable_changed)
   \<and> 0 < n_sent (accepts 3) \<and> send_error (accepts 3) = None
   \<and> map_option fst (nice_output_stream_write (sample_stream False (sample_agent True)) 5 None
        ([blocks Writable_changed] @ accepts 3 # [accepts 2])) = Some (Returned 5 None)
   \<and> map_option (sends \<circ> snd)
        (nice_output_stream_write (sample_stream False (sample_agent True)) 5 None
           ([blocks Writable_changed] @ accepts 3 # [accepts 2])) = Some [Send 0 5, Send 0 5]"
  using success_ends_call [where s = "sample_stream False (sample_agent True)"
      and agent = "sample_agent True" and count = 5 and wbs = "[blocks Writable_changed]"
      and r = "accepts 3" and rest = "[accepts 2]" and c = None and hc = False
      and st = "write_start None"]
  by (simp add: sample_stream_def G_MAXSSIZE_def would_block_def blocks_def accepts_def)


text \<open>Claim C1. In every blocking write on an open stream with a non-empty buffer that
  returns, every send attempt but the last was answered "would block", and every attempt
  was given the whole buffer from offset 0. So a send attempt that fails with another
  error is always made with zero bytes accepted: an attempt after accepted bytes does not
  exist, and nothing accepted can be lost to a later failure. When the last attempt fails
  that way the call returns - 1 and reports that error; when it succeeds the call returns
  the accepted \<open>count\<close> without an error, whatever the agent would have answered to further
  attempts; and a call that reports an error of a send has accepted zero bytes. The call
  returns as soon as one answer is not "would block".\<close>

theorem error_only_without_progress:
  assumes "\<not> is_closed s" "agent_ref s = Some agent" "0 < count" "count \<le> G_MAXSSIZE"
  shows "((nice_output_stream_write s count c script = None) = (\<forall>a\<in>set script. would_block a))
       \<and> (\<forall>out tr. nice_output_stream_write s count c script = Some (out, tr) \<longrightarrow>
            (\<exists>wbs r rest. script = wbs @ r # rest
               \<and> (\<forall>a\<in>set wbs. would_block a) \<and> \<not> would_block r
               \<and> sends tr = replicate (Suc (length wbs)) (Send 0 count)
               \<and> (0 < n_sent r \<and> send_error r = None \<longrightarrow> out = Returned (int count) None)
               \<and> (n_sent r = - 1 \<and> send_error r \<noteq> None \<longrightarrow> out = Returned (- 1) (send_error r))
               \<and> (\<forall>e. out = Returned (- 1) (Some e) \<longrightarrow> n_sent r = - 1 \<and> send_error r = Some e)))"
proof (cases "\<forall>a\<in>set script. would_block a")
  case True
  then have "write_loop count (c \<noteq> None) script (write_start c) = None"
    using assms(3) by (intro loop_all_would_block) (simp_all add: start_state gsize_of_gssize_0)
  then show ?thesis using True assms(1-3) by (simp add: write_open)
next
  case False
  then have "\<exists>a\<in>set script. \<not> would_block a" by simp
  then obtain wbs r rest where script: "script = wbs @ r # rest"
    and nwb: "\<not> would_block r" and wbs: "\<forall>a\<in>set wbs. would_block a"
    using split_list_first_prop [of script "\<lambda>a. \<not> would_block a"] by auto
  let ?st = "run_iterations count (c \<noteq> None) (wbs @ [r]) (write_start c)"
  have res: "nice_output_stream_write s count c script = Some (write_finish c ?st)"
    unfolding script by (rule write_exit [OF assms(1-4) wbs nwb])
  have st: "len ?st = (if 0 < n_sent r then int count else n_sent r)" "child_error ?st = send_error r"
       "sends (trace ?st) = replicate (Suc (length wbs)) (Send 0 count)"
    using exit_state [OF wbs nwb assms(4), of "write_start c" "c \<noteq> None"]
    by (simp_all add: start_state)
  have rc: "ref_count (wdata ?st) = (if c = Some True then 2 else 3)"
    by (simp only: run_iterations_ref_count start_ref_count)
  have succ: "0 < n_sent r \<and> send_error r = None \<longrightarrow>
      fst (write_finish c ?st) = Returned (int count) None"
    using st assms(3) by (auto intro: finish_success)
  have fail: "n_sent r = - 1 \<and> send_error r \<noteq> None \<longrightarrow>
      fst (write_finish c ?st) = Returned (- 1) (send_error r)"
    using st by (auto intro: finish_failure)
  have only: "\<forall>e. fst (write_finish c ?st) = Returned (- 1) (Some e) \<longrightarrow>
      n_sent r = - 1 \<and> send_error r = Some e"
  proof (intro allI impI)
    fix e assume "fst (write_finish c ?st) = Returned (- 1) (Some e)"
    from finish_reports_error [OF rc this] st assms(3)
    show "n_sent r = - 1 \<and> send_error r = Some e" by (auto split: if_splits)
  qed
  have shape: "\<exists>wbs r rest. script = wbs @ r # rest
               \<and> (\<forall>a\<in>set wbs. would_block a) \<and> \<not> would_block r
               \<and> sends (snd (write_finish c ?st)) = replicate (Suc (length wbs)) (Send 0 count)
               \<and> (0 < n_sent r \<and> send_error r = None \<longrightarrow>
                    fst (write_finish c ?st) = Returned (int count) None)
               \<and> (n_sent r = - 1 \<and> send_error r \<noteq> None \<longrightarrow>
                    fst (write_finish c ?st) = Returned (- 1) (send_error r))
               \<and> (\<forall>e. fst (write_finish c ?st) = Returned (- 1) (Some e) \<longrightarrow>
                    n_sent r = - 1 \<and> send_error r = Some e)"
  proof (intro exI conjI)
    show "script = wbs @ r # rest" by (rule script)
    show "\<forall>a\<in>set wbs. would_block a" by (rule wbs)
    show "\<not> would_block r" by (rule nwb)
    show "sends (snd (write_finish c ?st)) = replicate (Suc (length wbs)) (Send 0 count)"
      using st(3) by (simp only: finish_sends)
    show "0 < n_sent r \<and> send_error r = None \<longrightarrow>
            fst (write_finish c ?st) = Returned (int count) None" by (rule succ)
    show "n_sent r = - 1 \<and> send_error r \<noteq> None \<longrightarrow>
            fst (write_finish c ?st) = Returned (- 1) (send_error r)" by (rule fail)
    show "\<forall>e. fst (write_finish c ?st) = Returned (- 1) (Some e) \<longrightarrow>
            n_sent r = - 1 \<and> send_error r = Some e" by (rule only)
  qed
  have first: "(nice_output_stream_write s count c script = None) = (\<forall>a\<in>set script. would_block a)"
    using res False by simp
  have second: "\<forall>out tr. nice_output_stream_write s count c script = Some (out, tr) \<longrightarrow>
            (\<exists>wbs r rest. script = wbs @ r # rest
               \<and> (\<forall>a\<in>set wbs. would_block a) \<and> \<not> would_block r
               \<and> sends tr = replicate (Suc (length wbs)) (Send 0 count)
               \<and> (0 < n_sent r \<and> send_error r = None \<longrightarrow> out = Returned (int count) None)
               \<and> (n_sent r = - 1 \<and> send_error r \<noteq> None \<longrightarrow> out = Returned (- 1) (send_error r))
               \<and> (\<forall>e. out = Returned (- 1) (Some e) \<longrightarrow> n_sent r = - 1 \<and> send_error r = Some e))"
  proof (intro allI impI)
    fix out tr
    assume "nice_output_stream_write s count c script = Some (out, tr)"
    with res have "write_finish c ?st = (out, tr)" by simp
    then have "fst (write_finish c ?st) = out" "snd (write_finish c ?st) = tr" by simp_all
    with shape show "\<exists>wbs r rest. script = wbs @ r # rest
               \<and> (\<forall>a\<in>set wbs. would_block a) \<and> \<not> would_block r
               \<and> sends tr = replicate (Suc (length wbs)) (Send 0 count)
               \<and> (0 < n_sent r \<and> send_error r = None \<longrightarrow> out = Returned (int count) None)
               \<and> (n_sent r = - 1 \<and> send_error r \<noteq> None \<longrightarrow> out = Returned (- 1) (send_error r))
               \<and> (\<forall>e. out = Returned (- 1) (Some e) \<longrightarrow> n_sent r = - 1 \<and> send_error r = Some e)"
      by simp
  qed
  from first second show ?thesis by (rule conjI)
qed

theorem error_only_without_progress_witness:
  "\<not> is_closed (sample_stream False (sample_agent True))
   \<and> agent_ref (sample_stream False (sample_agent True)) = Some (sample_agent True)
   \<and> (0 :: nat) < 5 \<and> 5 \<le> G_MAXSSIZE
   \<and> nice_output_stream_write (sample_stream False (sample_agent True)) 5 None
        [blocks Writable_changed, fails G_IO_ERROR_FAILED]
       = Some (Returned (- 1) (Some G_IO_ERROR_FAILED),
               [Alloc_write_data, Connect_writable, Send 0 5, Cond_wait, Send 0 5,
                Disconnect_writable, Unref_write_data])
   \<and> nice_output_stream_write (sample_stream False (sample_agent True)) 5 None
        [blocks Writable_changed, accepts 1, fails G_IO_ERROR_FAILED]
       = Some (Returned 5 None,
               [Alloc_write_data, Connect_writable, Send 0 5, Cond_wait, Send 0 5,
                Disconnect_writable, Unref_write_data])
   \<and> nice_output_stream_write (sample_stream False (sample_agent True)) 5 None
        [blocks Writable_changed, blocks Writable_changed] = None"
  using error_only_without_progress [where s = "sample_stream False (sample_agent True)"
      and agent = "sample_agent True" and count = 5 and c = None
      and script = "[blocks Writable_changed, fails G_IO_ERROR_FAILED]"]
    error_only_without_progress [where s = "sample_stream False (sample_agent True)"
      and agent = "sample_agent True" and count = 5 and c = None
      and script = "[blocks Writable_changed, accepts 1, fails G_IO_ERROR_FAILED]"]
    error_only_without_progress [where s = "sample_stream False (sample_agent True)"
      and agent = "sample_agent True" and count = 5 and c = None
      and script = "[blocks Writable_changed, blocks Writable_changed]"]
  by (simp add: nice_output_stream_write_def write_iteration_def write_start_def write_finish_def
      sample_stream_def accepts_def blocks_def fails_def would_block_def gssize_of_gsize_def
      gsize_of_gssize_def write_data_unref_def freed_def reliable_transport_writeable_cb_def
      G_MAXSSIZE_def Let_def)




end
